theory Spec2Isabelle
  imports Main "HOL-Library.Word"
begin

section \<open>Python values and exceptions\<close>

text \<open>
  The sensor is Python 3 code working on dynamically typed values: the configuration is a
  nested dict read from YAML, a delivered body is a \<open>bytes\<close> object, and what a
  deserialization function returns can be of any type.  The values are modelled by one
  datatype.  A \<open>bytes\<close> object is a list of bytes (\<open>char\<close> is a byte), a
  \<open>str\<close> is a list of Unicode code points, a dict is an association list in
  insertion order, a float is carried as its IEEE-754 bit pattern.
\<close>

type_synonym bytes = "char list"
type_synonym pystr = "nat list"

datatype pyval =
    PyNone
  | PyBool bool
  | PyInt int
  | PyFloat "64 word"
  | PyStr pystr
  | PyBytes bytes
  | PyList "pyval list"
  | PyDict "(pyval \<times> pyval) list"

text \<open>A \<open>str\<close> literal of the source, all of whose characters are ASCII.\<close>

definition py_str :: "string \<Rightarrow> pyval" where
  "py_str cs = PyStr (map of_char cs)"

text \<open>
  Exceptions are identified by their class; a \<open>KeyError\<close> carries the missing key,
  an \<open>AttributeError\<close> the name of the missing attribute, a \<open>ValueError\<close> its
  message as written in the source (the format string, without the interpolated value).
  \<open>LibraryError\<close> stands for any other
  class deriving from \<open>Exception\<close> that a collaborator raises,
  \<open>BaseExceptionOnly\<close> for the classes deriving from \<open>BaseException\<close> but not
  from \<open>Exception\<close> (\<open>KeyboardInterrupt\<close>, \<open>SystemExit\<close>,
  \<open>GreenletExit\<close>): an \<open>except Exception\<close> clause lets those through.
\<close>

datatype pyexc =
    KeyError pyval
  | TypeError string
  | AttributeError string
  | ValueError string
  | UnicodeDecodeError
  | LibraryError string
  | BaseExceptionOnly string

fun is_Exception :: "pyexc \<Rightarrow> bool" where
  "is_Exception (BaseExceptionOnly _) = False"
| "is_Exception _ = True"

definition bindE :: "'e + 'a \<Rightarrow> ('a \<Rightarrow> 'e + 'b) \<Rightarrow> 'e + 'b" where
  "bindE m f = (case m of Inl e \<Rightarrow> Inl e | Inr x \<Rightarrow> f x)"

text \<open>Truth value testing, as \<open>if x\<close>, \<open>x and y\<close> and \<open>not x\<close> do it.\<close>

fun truthy :: "pyval \<Rightarrow> bool" where
  "truthy PyNone = False"
| "truthy (PyBool b) = b"
| "truthy (PyInt i) = (i \<noteq> 0)"
| "truthy (PyFloat w) = (w \<noteq> 0 \<and> w \<noteq> 0x8000000000000000)"
| "truthy (PyStr cs) = (cs \<noteq> [])"
| "truthy (PyBytes bs) = (bs \<noteq> [])"
| "truthy (PyList xs) = (xs \<noteq> [])"
| "truthy (PyDict kvs) = (kvs \<noteq> [])"

text \<open>
  \<open>d[key]\<close> for a \<open>str\<close> key: a dict raises \<open>KeyError\<close> on a missing key,
  every other type of the model raises \<open>TypeError\<close> (a sequence wants integer
  indices, the rest is not subscriptable).
\<close>

fun py_getitem :: "pyval \<Rightarrow> string \<Rightarrow> pyexc + pyval" where
  "py_getitem (PyDict kvs) key =
     (case map_of kvs (py_str key) of
        None \<Rightarrow> Inl (KeyError (py_str key))
      | Some v \<Rightarrow> Inr v)"
| "py_getitem _ key = Inl (TypeError ''subscript'')"

text \<open>\<open>d.get(key, default)\<close>: only a dict has the method.\<close>

fun py_get :: "pyval \<Rightarrow> string \<Rightarrow> pyval \<Rightarrow> pyexc + pyval" where
  "py_get (PyDict kvs) key dflt =
     Inr (case map_of kvs (py_str key) of None \<Rightarrow> dflt | Some v \<Rightarrow> v)"
| "py_get _ key dflt = Inl (AttributeError ''get'')"

subsection \<open>Strict UTF-8 decoding\<close>

text \<open>
  \<open>bytes.decode('utf-8')\<close> with the default error handler \<open>strict\<close>: well-formed
  sequences only (no overlong form, no surrogate, nothing above U+10FFFF, no truncated
  sequence), \<open>UnicodeDecodeError\<close> otherwise.  \<open>utf8\<close> works on the byte values.
\<close>

definition continuation :: "nat \<Rightarrow> bool" where
  "continuation b = (0x80 \<le> b \<and> b \<le> 0xBF)"

fun utf8 :: "nat list \<Rightarrow> nat list option" where
  "utf8 [] = Some []"
| "utf8 (b0 # bs) =
     (if b0 < 0x80 then map_option ((#) b0) (utf8 bs)
      else if 0xC2 \<le> b0 \<and> b0 \<le> 0xDF then
        (case bs of
           b1 # r \<Rightarrow>
             if continuation b1
             then map_option ((#) ((b0 - 0xC0) * 64 + (b1 - 0x80))) (utf8 r)
             else None
         | _ \<Rightarrow> None)
      else if 0xE0 \<le> b0 \<and> b0 \<le> 0xEF then
        (case bs of
           b1 # b2 # r \<Rightarrow>
             if (if b0 = 0xE0 then 0xA0 else 0x80) \<le> b1
                \<and> b1 \<le> (if b0 = 0xED then 0x9F else 0xBF)
                \<and> continuation b2
             then map_option
                    ((#) ((b0 - 0xE0) * 4096 + (b1 - 0x80) * 64 + (b2 - 0x80))) (utf8 r)
             else None
         | _ \<Rightarrow> None)
      else if 0xF0 \<le> b0 \<and> b0 \<le> 0xF4 then
        (case bs of
           b1 # b2 # b3 # r \<Rightarrow>
             if (if b0 = 0xF0 then 0x90 else 0x80) \<le> b1
                \<and> b1 \<le> (if b0 = 0xF4 then 0x8F else 0xBF)
                \<and> continuation b2 \<and> continuation b3
             then map_option
                    ((#) ((b0 - 0xF0) * 262144 + (b1 - 0x80) * 4096
                          + (b2 - 0x80) * 64 + (b3 - 0x80))) (utf8 r)
             else None
         | _ \<Rightarrow> None)
      else None)"

definition utf8_decode :: "bytes \<Rightarrow> pystr option" where
  "utf8_decode bs = utf8 (map of_char bs)"

text \<open>
  \<open>body.decode('utf-8')\<close> on a value of any type: of the types of the model only
  \<open>bytes\<close> has a \<open>decode\<close> method (a Python 3 \<open>str\<close> has none).
\<close>

fun py_decode :: "pyval \<Rightarrow> pyexc + pystr" where
  "py_decode (PyBytes bs) =
     (case utf8_decode bs of None \<Rightarrow> Inl UnicodeDecodeError | Some cs \<Rightarrow> Inr cs)"
| "py_decode _ = Inl (AttributeError ''decode'')"


section \<open>Collaborators and effects\<close>

text \<open>
  What the sensor does to the outside world is recorded as a list of events, in the order
  of the calls: log records (level and format string; the interpolated arguments are not
  part of the model), the calls on the broker client (\<open>pika\<close>) and the call on the
  host's sensor service.
\<close>

datatype loglevel = DEBUG | INFO | ERROR

datatype conn_param = Param pyval | PlainCredentials pyval pyval

type_synonym conn_params = "(string \<times> conn_param) list"

datatype connection = BlockingConnection conn_params

datatype blocking_channel = BlockingChannel connection

text \<open>
  The function object \<open>callback\<close> that \<open>setup\<close> defines in its loop.  Its default
  argument \<open>queue_copy=queue\<close> is evaluated when the \<open>def\<close> statement runs, so the
  closure carries the value \<open>queue\<close> had in that iteration.
\<close>

datatype callback = Callback (queue_copy: pyval)

datatype effect =
    Log loglevel string
  | Connect conn_params
  | OpenChannel
  | BasicQos nat
  | QueueDeclare pyval bool
  | BasicConsume pyval callback
  | Dispatch string pyval
  | BasicAck nat

text \<open>
  The collaborators whose answers the sensor depends on.  \<open>json_loads\<close> and
  \<open>pickle_loads\<close> are the two library functions of the table
  \<open>DESERIALIZATION_FUNCTIONS\<close>; \<open>dispatch\<close> is the host's
  \<open>sensor_service.dispatch(trigger, payload)\<close>, which may raise; \<open>connect\<close> is
  \<open>pika.BlockingConnection(pika.ConnectionParameters(**params))\<close>, which may raise.
  \<open>None\<close> is a normal return.  The operations on an open channel (\<open>channel\<close>,
  \<open>basic_qos\<close>, \<open>queue_declare\<close>, \<open>basic_consume\<close>, \<open>basic_ack\<close>) are
  taken to return normally: the source handles no failure of theirs, and the transport
  boundary of the specification gives them none.
\<close>

record env =
  json_loads :: "bytes \<Rightarrow> pyexc + pyval"
  pickle_loads :: "bytes \<Rightarrow> pyexc + pyval"
  dispatch :: "string \<Rightarrow> pyval \<Rightarrow> pyexc option"
  connect :: "conn_params \<Rightarrow> pyexc option"

text \<open>
  The environment of one run in which every call of a deserialization function has the
  outcome \<open>loaded\<close>, the host's dispatch the outcome \<open>dispatched\<close> and the
  transport's connect the outcome \<open>connected\<close>.
\<close>

definition scenario :: "pyexc + pyval \<Rightarrow> pyexc option \<Rightarrow> pyexc option \<Rightarrow> env" where
  "scenario loaded dispatched connected =
     \<lparr>json_loads = (\<lambda>_. loaded), pickle_loads = (\<lambda>_. loaded),
      dispatch = (\<lambda>_ _. dispatched), connect = (\<lambda>_. connected)\<rparr>"

text \<open>The method frame \<open>Basic.Deliver\<close> that comes with a delivery.\<close>

record basic_deliver =
  delivery_tag :: nat

section \<open>The sensor\<close>

text \<open>The attributes of a \<open>RabbitMQQueueSensor\<close> object.\<close>

record sensor =
  host :: pyval
  port :: pyval
  username :: pyval
  password :: pyval
  vhost :: pyval
  socket_timeout :: pyval
  blocked_connection_timeout :: pyval
  heartbeat :: pyval
  queues :: "pyval list"
  deserialization_method :: pyval
  conn :: "connection option"
  channel :: "blocking_channel option"

subsection \<open>The table of deserialization functions\<close>

definition DESERIALIZATION_FUNCTIONS :: "env \<Rightarrow> (pyval \<times> (bytes \<Rightarrow> pyexc + pyval)) list" where
  "DESERIALIZATION_FUNCTIONS E =
     [(py_str ''json'', json_loads E), (py_str ''pickle'', pickle_loads E)]"

text \<open>
  A list or a dict is not hashable: looking one up in a dict, or testing its membership in
  a dict's keys, raises \<open>TypeError\<close>.
\<close>

fun hashable :: "pyval \<Rightarrow> bool" where
  "hashable (PyList _) = False"
| "hashable (PyDict _) = False"
| "hashable _ = True"

text \<open>\<open>x not in DESERIALIZATION_FUNCTIONS.keys()\<close>.\<close>

definition not_in_supported_methods :: "pyval \<Rightarrow> pyexc + bool" where
  "not_in_supported_methods x =
     (if hashable x then Inr (x \<noteq> py_str ''json'' \<and> x \<noteq> py_str ''pickle'')
      else Inl (TypeError ''unhashable''))"

text \<open>\<open>DESERIALIZATION_FUNCTIONS[x]\<close>.\<close>

definition deserialization_func :: "env \<Rightarrow> pyval \<Rightarrow> pyexc + (bytes \<Rightarrow> pyexc + pyval)" where
  "deserialization_func E x =
     (if hashable x then
        (case map_of (DESERIALIZATION_FUNCTIONS E) x of
           None \<Rightarrow> Inl (KeyError x)
         | Some f \<Rightarrow> Inr f)
      else Inl (TypeError ''unhashable''))"

subsection \<open>The constructor\<close>

text \<open>
  \<open>cfg\<close> is \<open>self._config\<close> as the base class stored it.
  \<open>sensor_config_item cfg k\<close> is the expression \<open>self._config['sensor_config'][k]\<close>,
  \<open>sensor_config_get cfg k d\<close> is \<open>self._config['sensor_config'].get(k, d)\<close>
  (\<open>.get(k)\<close> has the default \<open>None\<close>).
\<close>

definition sensor_config_item :: "pyval \<Rightarrow> string \<Rightarrow> pyexc + pyval" where
  "sensor_config_item cfg k = bindE (py_getitem cfg ''sensor_config'') (\<lambda>sc. py_getitem sc k)"

definition sensor_config_get :: "pyval \<Rightarrow> string \<Rightarrow> pyval \<Rightarrow> pyexc + pyval" where
  "sensor_config_get cfg k d = bindE (py_getitem cfg ''sensor_config'') (\<lambda>sc. py_get sc k d)"

text \<open>
  \<open>if not isinstance(self.queues, list): self.queues = [self.queues]\<close>: afterwards
  the attribute is a list, whose items the field \<open>queues\<close> holds.
\<close>

fun listify :: "pyval \<Rightarrow> pyval list" where
  "listify (PyList xs) = xs"
| "listify x = [x]"

definition init :: "pyval \<Rightarrow> pyexc + sensor" where
  "init cfg =
     bindE (sensor_config_item cfg ''host'') (\<lambda>h.
     bindE (sensor_config_get cfg ''port'' (PyInt 5672)) (\<lambda>p.
     bindE (sensor_config_get cfg ''username'' PyNone) (\<lambda>u.
     bindE (sensor_config_get cfg ''password'' PyNone) (\<lambda>pw.
     bindE (sensor_config_get cfg ''vhost'' PyNone) (\<lambda>vh.
     bindE (sensor_config_get cfg ''socket_timeout'' (PyInt 60)) (\<lambda>st.
     bindE (sensor_config_get cfg ''blocked_connection_timeout'' (PyInt 60)) (\<lambda>bt.
     bindE (sensor_config_get cfg ''heartbeat'' (PyInt 600)) (\<lambda>hb.
     bindE (sensor_config_item cfg ''rabbitmq_queue_sensor'') (\<lambda>queue_sensor_config.
     bindE (py_getitem queue_sensor_config ''queues'') (\<lambda>qs.
     bindE (py_getitem queue_sensor_config ''deserialization_method'') (\<lambda>dm.
     bindE (if truthy dm then not_in_supported_methods dm else Inr False) (\<lambda>invalid.
       if invalid then Inl (ValueError ''Invalid deserialization method specified: %s'')
       else Inr \<lparr>host = h, port = p, username = u, password = pw, vhost = vh,
                 socket_timeout = st, blocked_connection_timeout = bt, heartbeat = hb,
                 queues = listify qs,
                 deserialization_method = dm,
                 conn = None, channel = None\<rparr>))))))))))))"

subsection \<open>The message callback\<close>

text \<open>
  \<open>_deserialize_body\<close>: the \<open>except Exception: pass\<close> keeps the raw body when the
  deserialization function raises; what does not derive from \<open>Exception\<close> goes through.
\<close>

definition deserialize_body :: "env \<Rightarrow> sensor \<Rightarrow> bytes \<Rightarrow> pyexc + pyval" where
  "deserialize_body E s body =
     (if \<not> truthy (deserialization_method s) then Inr (PyBytes body)
      else
        bindE (deserialization_func E (deserialization_method s)) (\<lambda>deserialization_func.
          case deserialization_func body of
            Inl e \<Rightarrow> if is_Exception e then Inr (PyBytes body) else Inl e
          | Inr v \<Rightarrow> Inr v))"

text \<open>
  \<open>_dispatch_trigger\<close>.  The result is the exception that leaves the function
  (\<open>None\<close> for a normal return) and the events in the order they happened.  The
  arguments \<open>ch\<close> and \<open>properties\<close> are not used by the source and are left out.
  Lines 110 to 113 stand before the \<open>try\<close>: an exception there leaves the function at
  once.  The \<open>finally\<close> clause runs whether \<open>dispatch\<close> returned or raised;
  \<open>self.channel.basic_ack\<close> needs \<open>self.channel\<close> to be a channel, and an
  \<open>AttributeError\<close> raised in the clause replaces the exception of \<open>dispatch\<close>.
\<close>

definition dispatch_trigger ::
  "env \<Rightarrow> sensor \<Rightarrow> basic_deliver \<Rightarrow> bytes \<Rightarrow> pyval \<Rightarrow> pyexc option \<times> effect list" where
  "dispatch_trigger E s meth body queue =
     (case deserialize_body E s body of
        Inl e \<Rightarrow> (Some e, [])
      | Inr body1 \<Rightarrow>
          (case py_decode body1 of
             Inl e \<Rightarrow> (Some e, [Log DEBUG ''Received message for queue %s with body %s''])
           | Inr body2 \<Rightarrow>
               (let payload = PyDict [(py_str ''queue'', queue), (py_str ''body'', PyStr body2)];
                    raised = dispatch E ''rabbitmq.new_message'' payload;
                    tr = [Log DEBUG ''Received message for queue %s with body %s'',
                          Dispatch ''rabbitmq.new_message'' payload]
                in case channel s of
                     None \<Rightarrow> (Some (AttributeError ''basic_ack''), tr)
                   | Some ch \<Rightarrow> (raised, tr @ [BasicAck (delivery_tag meth)]))))"

text \<open>
  The transport calls a registered callback with four positional arguments, so
  \<open>queue_copy\<close> keeps its default.
\<close>

definition callback_call ::
  "env \<Rightarrow> sensor \<Rightarrow> callback \<Rightarrow> basic_deliver \<Rightarrow> bytes \<Rightarrow> pyexc option \<times> effect list" where
  "callback_call E s cb meth body = dispatch_trigger E s meth body (queue_copy cb)"

subsection \<open>Setting up the connection and the subscriptions\<close>

text \<open>The dict \<open>connection_params\<close>, in insertion order.\<close>

definition connection_params :: "sensor \<Rightarrow> conn_params" where
  "connection_params s =
     [(''host'', Param (host s)),
      (''port'', Param (port s)),
      (''socket_timeout'', Param (socket_timeout s)),
      (''blocked_connection_timeout'', Param (blocked_connection_timeout s)),
      (''heartbeat'', Param (heartbeat s))]
     @ (if truthy (username s) \<and> truthy (password s)
        then [(''credentials'', PlainCredentials (username s) (password s))] else [])
     @ (if truthy (vhost s) then [(''virtual_host'', Param (vhost s))] else [])"

text \<open>The loop \<open>for queue in self.queues\<close>.\<close>

fun consume_queues :: "pyval list \<Rightarrow> effect list" where
  "consume_queues [] = []"
| "consume_queues (queue # rest) =
     [Log INFO ''Consuming queue %s'', QueueDeclare queue True,
      BasicConsume queue (Callback queue)]
     @ consume_queues rest"

text \<open>
  \<open>setup\<close>.  The result is the exception that leaves the method, the sensor afterwards
  and the events.  The bare \<open>except\<close> catches whatever \<open>connect\<close> raises and logs
  it; \<open>self.conn\<close> then keeps the value it had, and the next statement calls
  \<open>self.conn.channel()\<close> on it.
\<close>

definition setup_sensor :: "env \<Rightarrow> sensor \<Rightarrow> pyexc option \<times> sensor \<times> effect list" where
  "setup_sensor E s =
     (let params = connection_params s;
          tr0 = map (\<lambda>item. Log DEBUG ''Connecting to RabbitMQ with %s = %r'') params
                @ [Log INFO ''Connecting to RabbitMQ on %s:%r'', Connect params];
          (s1, tr1) =
            (case connect E params of
               None \<Rightarrow> (s\<lparr>conn := Some (BlockingConnection params)\<rparr>, tr0)
             | Some e \<Rightarrow> (s, tr0 @ [Log ERROR ''Connecting to RabbitMQ failed: %r'']));
          tr2 = tr1 @ [Log DEBUG ''Opening channel on RabbitMQ'']
      in case conn s1 of
           None \<Rightarrow> (Some (AttributeError ''channel''), s1, tr2)
         | Some c \<Rightarrow>
             (None, s1\<lparr>channel := Some (BlockingChannel c)\<rparr>,
              tr2 @ [OpenChannel,
                     Log DEBUG ''Setting QOS on RabbitMQ Channel'', BasicQos 1,
                     Log INFO ''Connected to RabbitMQ on %s:%r'']
                  @ consume_queues (queues s1)))"

subsection \<open>Delivery\<close>

text \<open>
  The transport's side of a subscription: \<open>basic_consume(queue, callback)\<close> registers
  the callback as a consumer of the queue, and a message of a queue is handed to a
  consumer registered for that queue.  \<open>consumers\<close> reads the registrations off the
  events of \<open>setup\<close>; \<open>deliver\<close> hands a message of \<open>queue\<close> to the consumer
  registered for it (nothing happens when there is none).
\<close>

fun consumers :: "effect list \<Rightarrow> (pyval \<times> callback) list" where
  "consumers [] = []"
| "consumers (BasicConsume queue cb # es) = (queue, cb) # consumers es"
| "consumers (_ # es) = consumers es"

definition deliver ::
  "env \<Rightarrow> sensor \<Rightarrow> effect list \<Rightarrow> pyval \<Rightarrow> basic_deliver \<Rightarrow> bytes
     \<Rightarrow> pyexc option \<times> effect list" where
  "deliver E s tr queue meth body =
     (case map_of (consumers tr) queue of
        None \<Rightarrow> (None, [])
      | Some cb \<Rightarrow> callback_call E s cb meth body)"

text \<open>The events of a trace that forward an event to the host, and its acknowledgments.\<close>

fun forwarded :: "effect list \<Rightarrow> (string \<times> pyval) list" where
  "forwarded [] = []"
| "forwarded (Dispatch trigger payload # es) = (trigger, payload) # forwarded es"
| "forwarded (_ # es) = forwarded es"

fun acks :: "effect list \<Rightarrow> nat list" where
  "acks [] = []"
| "acks (BasicAck tag # es) = tag # acks es"
| "acks (_ # es) = acks es"

fun connects :: "effect list \<Rightarrow> conn_params list" where
  "connects [] = []"
| "connects (Connect params # es) = params # connects es"
| "connects (_ # es) = connects es"

subsection \<open>The sensor's life up to one delivery\<close>

text \<open>
  The host constructs the sensor, calls \<open>setup\<close> and then \<open>run\<close>, which blocks in
  the transport's consumption loop; the loop hands deliveries to the callbacks.
  \<open>first_delivery\<close> is that sequence up to the first delivery: \<open>Inl\<close> when the
  constructor or \<open>setup\<close> raises, else what the callback does.
\<close>

definition first_delivery ::
  "env \<Rightarrow> pyval \<Rightarrow> pyval \<Rightarrow> basic_deliver \<Rightarrow> bytes
     \<Rightarrow> pyexc + (pyexc option \<times> effect list)" where
  "first_delivery E cfg queue meth body =
     bindE (init cfg) (\<lambda>s0.
       case setup_sensor E s0 of
         (Some e, s1, tr) \<Rightarrow> Inl e
       | (None, s1, tr) \<Rightarrow> Inr (deliver E s1 tr queue meth body))"

subsection \<open>Configurations\<close>

text \<open>
  A configuration dict whose entry \<open>queues\<close> is \<open>qs\<close>, with any other entries
  \<open>outer\<close>, \<open>sc\<close> and \<open>qsc\<close> at the three levels; and the smallest one the
  constructor reads through, with the two entries of the queue sensor given.
\<close>

definition config_with ::
  "(pyval \<times> pyval) list \<Rightarrow> (pyval \<times> pyval) list \<Rightarrow> (pyval \<times> pyval) list \<Rightarrow> pyval \<Rightarrow> pyval" where
  "config_with outer sc qsc qs =
     PyDict ((py_str ''sensor_config'',
              PyDict ((py_str ''rabbitmq_queue_sensor'',
                       PyDict ((py_str ''queues'', qs) # qsc)) # sc)) # outer)"

definition minimal_config :: "pyval \<Rightarrow> pyval \<Rightarrow> pyval" where
  "minimal_config qs dm =
     config_with [] [(py_str ''host'', py_str ''localhost'')]
       [(py_str ''deserialization_method'', dm)] qs"


text \<open>
  The sensor the constructor returns for \<open>minimal_config\<close> (with the items \<open>qs\<close>
  of the queue list), and a sensor after a \<open>setup\<close> whose connect succeeded.
\<close>

definition minimal_sensor :: "pyval list \<Rightarrow> pyval \<Rightarrow> sensor" where
  "minimal_sensor qs dm =
     \<lparr>host = py_str ''localhost'', port = PyInt 5672, username = PyNone,
      password = PyNone, vhost = PyNone, socket_timeout = PyInt 60,
      blocked_connection_timeout = PyInt 60, heartbeat = PyInt 600,
      queues = qs, deserialization_method = dm, conn = None, channel = None\<rparr>"

definition connected :: "sensor \<Rightarrow> sensor" where
  "connected s =
     s\<lparr>conn := Some (BlockingConnection (connection_params s)),
       channel := Some (BlockingChannel (BlockingConnection (connection_params s)))\<rparr>"


section \<open>Basic facts\<close>

lemma bindE_Inl [simp]: "bindE (Inl e) f = Inl e"
  and bindE_Inr [simp]: "bindE (Inr x) f = f x"
  by (simp_all add: bindE_def)

lemma bindE_eq_Inr: "bindE m f = Inr y \<longleftrightarrow> (\<exists>x. m = Inr x \<and> f x = Inr y)"
  by (cases m) simp_all

lemma py_str_eq [simp]: "py_str a = py_str b \<longleftrightarrow> a = b"
proof -
  have "inj (of_char :: char \<Rightarrow> nat)" by (rule inj_onI) simp
  then show ?thesis by (auto simp: py_str_def dest: inj_mapI [THEN injD])
qed

lemma truthy_py_str [simp]: "truthy (py_str cs) \<longleftrightarrow> cs \<noteq> []"
  by (simp add: py_str_def)

lemma utf8_hello: "utf8_decode ''hello'' = Some (map of_char ''hello'')"
  by (simp add: utf8_decode_def)

lemma py_decode_eq_Inr:
  "py_decode v = Inr decoded \<longleftrightarrow> (\<exists>bs. v = PyBytes bs \<and> utf8_decode bs = Some decoded)"
  by (cases v) (auto split: option.splits)

lemma scenario_simps [simp]:
  "json_loads (scenario l d c) = (\<lambda>_. l)"
  "pickle_loads (scenario l d c) = (\<lambda>_. l)"
  "dispatch (scenario l d c) = (\<lambda>_ _. d)"
  "connect (scenario l d c) = (\<lambda>_. c)"
  by (simp_all add: scenario_def)

lemma deserialization_func_simps [simp]:
  "deserialization_func E (py_str ''json'') = Inr (json_loads E)"
  "deserialization_func E (py_str ''pickle'') = Inr (pickle_loads E)"
  by (simp_all add: deserialization_func_def DESERIALIZATION_FUNCTIONS_def py_str_def)

lemma connected_simps [simp]:
  "deserialization_method (connected s) = deserialization_method s"
  "channel (connected s) = Some (BlockingChannel (BlockingConnection (connection_params s)))"
  "conn (connected s) = Some (BlockingConnection (connection_params s))"
  "queues (connected s) = queues s"
  by (simp_all add: connected_def)

lemma minimal_sensor_simps [simp]:
  "deserialization_method (minimal_sensor qs dm) = dm"
  "queues (minimal_sensor qs dm) = qs"
  "conn (minimal_sensor qs dm) = None"
  "channel (minimal_sensor qs dm) = None"
  by (simp_all add: minimal_sensor_def)

subsection \<open>The callback\<close>

text \<open>
  When the body that comes out of \<open>_deserialize_body\<close> is a \<open>bytes\<close> object of
  well-formed UTF-8 and the sensor has its channel, the callback logs, dispatches and
  acknowledges, and what \<open>dispatch\<close> raised (if anything) leaves the callback.
\<close>

lemma dispatch_trigger_decoded:
  assumes "deserialize_body E s body = Inr (PyBytes bs)" and "utf8_decode bs = Some decoded"
    and "channel s = Some ch"
  shows "dispatch_trigger E s meth body queue =
    (dispatch E ''rabbitmq.new_message''
       (PyDict [(py_str ''queue'', queue), (py_str ''body'', PyStr decoded)]),
     [Log DEBUG ''Received message for queue %s with body %s'',
      Dispatch ''rabbitmq.new_message''
        (PyDict [(py_str ''queue'', queue), (py_str ''body'', PyStr decoded)]),
      BasicAck (delivery_tag meth)])"
  using assms by (simp add: dispatch_trigger_def Let_def)

text \<open>Whatever the callback forwards carries the queue it was called with.\<close>

lemma forwarded_dispatch_trigger:
  "(t, p) \<in> set (forwarded (snd (dispatch_trigger E s meth body queue))) \<Longrightarrow>
   \<exists>bs decoded. deserialize_body E s body = Inr (PyBytes bs) \<and> utf8_decode bs = Some decoded
     \<and> t = ''rabbitmq.new_message''
     \<and> p = PyDict [(py_str ''queue'', queue), (py_str ''body'', PyStr decoded)]"
  by (auto simp: dispatch_trigger_def py_decode_eq_Inr Let_def
      split: sum.splits option.splits)

subsection \<open>The constructor\<close>

lemma sensor_config_item_dict:
  assumes "sensor_config_item cfg k = Inr v"
  obtains kvs where "py_getitem cfg ''sensor_config'' = Inr (PyDict kvs)"
    and "py_getitem (PyDict kvs) k = Inr v"
proof -
  from assms obtain sc where sc: "py_getitem cfg ''sensor_config'' = Inr sc"
      "py_getitem sc k = Inr v"
    by (auto simp: sensor_config_item_def bindE_eq_Inr)
  from sc(2) obtain kvs where "sc = PyDict kvs" by (cases sc) simp_all
  with sc that show thesis by blast
qed

lemma minimal_config_items:
  "sensor_config_item (minimal_config qs dm) ''host'' = Inr (py_str ''localhost'')"
  "sensor_config_item (minimal_config qs dm) ''rabbitmq_queue_sensor''
     = Inr (PyDict [(py_str ''queues'', qs), (py_str ''deserialization_method'', dm)])"
  "py_getitem (PyDict [(py_str ''queues'', qs), (py_str ''deserialization_method'', dm)])
     ''queues'' = Inr qs"
  "py_getitem (PyDict [(py_str ''queues'', qs), (py_str ''deserialization_method'', dm)])
     ''deserialization_method'' = Inr dm"
  by (simp_all add: minimal_config_def config_with_def sensor_config_item_def)

lemma init_minimal:
  assumes "\<not> truthy dm \<or> dm = py_str ''json'' \<or> dm = py_str ''pickle''"
  shows "init (minimal_config qs dm) = Inr (minimal_sensor (listify qs) dm)"
proof -
  have "truthy dm \<Longrightarrow> not_in_supported_methods dm = Inr False"
    using assms by (auto simp: not_in_supported_methods_def py_str_def)
  then show ?thesis
    by (simp add: init_def minimal_config_def config_with_def minimal_sensor_def
        sensor_config_item_def sensor_config_get_def)
qed

text \<open>A sensor fresh from the constructor has neither connection nor channel.\<close>

lemma init_no_connection:
  assumes "init cfg = Inr s"
  shows "conn s = None \<and> channel s = None"
  using assms by (auto simp: init_def bindE_eq_Inr split: if_splits)

subsection \<open>Setup and delivery\<close>

lemma consumers_append: "consumers (xs @ ys) = consumers xs @ consumers ys"
  by (induction xs rule: consumers.induct) simp_all

lemma consumers_logs: "consumers (map (\<lambda>x. Log l m) xs) = []"
  by (induction xs) simp_all

lemma consumers_consume_queues:
  "consumers (consume_queues qs) = map (\<lambda>q. (q, Callback q)) qs"
  by (induction qs) simp_all

lemma map_of_callbacks:
  "q \<in> set qs \<Longrightarrow> map_of (map (\<lambda>q. (q, Callback q)) qs) q = Some (Callback q)"
  by (induction qs) auto

lemma connects_append: "connects (xs @ ys) = connects xs @ connects ys"
  by (induction xs rule: connects.induct) simp_all

lemma connects_logs: "connects (map (\<lambda>x. Log l m) xs) = []"
  by (induction xs) simp_all

text \<open>
  When \<open>setup\<close> returns, the sensor has a connection and a channel on it, and each
  configured queue has its own callback registered, in the order of the list.
\<close>

lemma setup_sensor_returns:
  assumes "setup_sensor E s = (None, s', tr)"
  shows "\<exists>c. conn s' = Some c \<and> s' = s\<lparr>conn := Some c, channel := Some (BlockingChannel c)\<rparr>"
    and "consumers tr = map (\<lambda>q. (q, Callback q)) (queues s)"
  using assms
  by (auto simp: setup_sensor_def Let_def consumers_append consumers_logs
      consumers_consume_queues split: option.splits)

lemma setup_sensor_connected:
  assumes "connect E (connection_params s) = None"
  shows "setup_sensor E s =
    (None, connected s,
     map (\<lambda>item. Log DEBUG ''Connecting to RabbitMQ with %s = %r'') (connection_params s)
     @ [Log INFO ''Connecting to RabbitMQ on %s:%r'',
        Connect (connection_params s),
        Log DEBUG ''Opening channel on RabbitMQ'',
        OpenChannel,
        Log DEBUG ''Setting QOS on RabbitMQ Channel'', BasicQos 1,
        Log INFO ''Connected to RabbitMQ on %s:%r'']
     @ consume_queues (queues s))"
  using assms by (simp add: setup_sensor_def Let_def connected_def)

lemma first_delivery_minimal:
  assumes "connect E (connection_params (minimal_sensor qs dm)) = None"
    and "\<not> truthy dm \<or> dm = py_str ''json'' \<or> dm = py_str ''pickle''"
    and "q \<in> set qs"
  shows "first_delivery E (minimal_config (PyList qs) dm) q meth body
    = Inr (dispatch_trigger E (connected (minimal_sensor qs dm)) meth body q)"
proof -
  have "queues (minimal_sensor qs dm) = qs" by (simp add: minimal_sensor_def)
  with assms(3) show ?thesis
    using init_minimal [OF assms(2), of "PyList qs"]
    by (simp add: first_delivery_def setup_sensor_connected [OF assms(1)] deliver_def
        consumers_append consumers_logs consumers_consume_queues map_of_callbacks
        callback_call_def)
qed


section \<open>The claims\<close>

subsection \<open>C1: acknowledgment of a delivered message\<close>

text \<open>
  C1, as amended.  For every message handed to \<open>_dispatch_trigger\<close> on a sensor that has
  its channel, whose body after \<open>_deserialize_body\<close> is a \<open>bytes\<close> object of
  well-formed UTF-8 (the raw body when no mode is configured or when the deserialization
  function raised, or bytes that the function returned), exactly one acknowledgment is
  issued, for that message's delivery tag, whether \<open>dispatch\<close> returns or raises.
\<close>

theorem C1_ack_once:
  assumes "channel s = Some ch"
    and "deserialize_body E s body = Inr (PyBytes bs)"
    and "utf8_decode bs = Some decoded"
  shows "acks (snd (dispatch_trigger E s meth body queue)) = [delivery_tag meth]"
  using assms by (simp add: dispatch_trigger_decoded)

text \<open>
  An instance: the mode is \<open>json\<close>, the deserialization function raises on the body
  \<open>b'hello'\<close> and \<open>dispatch\<close> raises as well; the one acknowledgment is issued.
\<close>

theorem C1_ack_once_witness:
  "channel (connected (minimal_sensor [py_str ''orders''] (py_str ''json'')))
     = Some (BlockingChannel (BlockingConnection
         (connection_params (minimal_sensor [py_str ''orders''] (py_str ''json'')))))
   \<and> deserialize_body
         (scenario (Inl (ValueError ''Expecting value'')) (Some (LibraryError ''dispatch'')) None)
         (connected (minimal_sensor [py_str ''orders''] (py_str ''json''))) ''hello''
       = Inr (PyBytes ''hello'')
   \<and> utf8_decode ''hello'' = Some (map of_char ''hello'')
   \<and> dispatch_trigger
         (scenario (Inl (ValueError ''Expecting value'')) (Some (LibraryError ''dispatch'')) None)
         (connected (minimal_sensor [py_str ''orders''] (py_str ''json'')))
         \<lparr>delivery_tag = 7\<rparr> ''hello'' (py_str ''orders'')
       = (Some (LibraryError ''dispatch''),
          [Log DEBUG ''Received message for queue %s with body %s'',
           Dispatch ''rabbitmq.new_message''
             (PyDict [(py_str ''queue'', py_str ''orders''), (py_str ''body'', py_str ''hello'')]),
           BasicAck 7])
   \<and> acks (snd (dispatch_trigger
         (scenario (Inl (ValueError ''Expecting value'')) (Some (LibraryError ''dispatch'')) None)
         (connected (minimal_sensor [py_str ''orders''] (py_str ''json'')))
         \<lparr>delivery_tag = 7\<rparr> ''hello'' (py_str ''orders''))) = [7]"
proof -
  let ?E = "scenario (Inl (ValueError ''Expecting value'')) (Some (LibraryError ''dispatch'')) None"
  let ?s = "connected (minimal_sensor [py_str ''orders''] (py_str ''json''))"
  have h1: "channel ?s = Some (BlockingChannel (BlockingConnection
         (connection_params (minimal_sensor [py_str ''orders''] (py_str ''json'')))))"
    by simp
  have h2: "deserialize_body ?E ?s ''hello'' = Inr (PyBytes ''hello'')"
    by (simp add: deserialize_body_def)
  note h3 = utf8_hello
  have d: "dispatch_trigger ?E ?s \<lparr>delivery_tag = 7\<rparr> ''hello'' (py_str ''orders'')
       = (Some (LibraryError ''dispatch''),
          [Log DEBUG ''Received message for queue %s with body %s'',
           Dispatch ''rabbitmq.new_message''
             (PyDict [(py_str ''queue'', py_str ''orders''), (py_str ''body'', py_str ''hello'')]),
           BasicAck 7])"
    using dispatch_trigger_decoded [OF h2 h3 h1] by (simp add: py_str_def)
  from C1_ack_once [OF h1 h2 h3, of "\<lparr>delivery_tag = 7\<rparr>" "py_str ''orders''"] h1 h2 h3 d
  show ?thesis by simp
qed

text \<open>
  C1 as stated fails when decoding fails.  The sensor is built from the minimal
  configuration with queue \<open>orders\<close> and no mode, \<open>setup\<close> connects, and the body
  \<open>b'\xff'\<close> (not UTF-8) is delivered with tag 7: line 112 raises
  \<open>UnicodeDecodeError\<close> before the \<open>try\<close> statement is reached, the only event is
  the log record, and no acknowledgment is issued.
\<close>

theorem C1_counterexample:
  "first_delivery (scenario (Inr PyNone) None None)
     (minimal_config (PyList [py_str ''orders'']) PyNone)
     (py_str ''orders'') \<lparr>delivery_tag = 7\<rparr> [CHR 0xFF]
   = Inr (Some UnicodeDecodeError,
          [Log DEBUG ''Received message for queue %s with body %s''])
   \<and> acks [Log DEBUG ''Received message for queue %s with body %s''] = []"
  by (simp add: first_delivery_minimal dispatch_trigger_def deserialize_body_def
      utf8_decode_def)

subsection \<open>C2: a valid JSON body under the mode json\<close>

text \<open>
  C2.  The claim expects the event \<open>{"queue": "jobs", "body": "{'id': 1}"}\<close> for the
  body \<open>b'{"id":1}'\<close> under the mode \<open>json\<close>.  In every environment whose
  \<open>json.loads\<close> maps that body to the dict \<open>{'id': 1}\<close>, the callback calls
  \<open>decode\<close> on the dict and leaves with \<open>AttributeError\<close>: nothing is forwarded
  and nothing is acknowledged.  The first equation is the whole run (constructor,
  \<open>setup\<close> with a successful connect, delivery), the second the callback on any
  sensor with that mode.
\<close>

theorem C2_json_object_raises:
  "first_delivery
     (E\<lparr>connect := \<lambda>_. None,
        json_loads := (json_loads E)(''{\"id\":1}'' := Inr (PyDict [(py_str ''id'', PyInt 1)]))\<rparr>)
     (minimal_config (PyList [py_str ''jobs'']) (py_str ''json''))
     (py_str ''jobs'') meth ''{\"id\":1}''
   = Inr (Some (AttributeError ''decode''),
          [Log DEBUG ''Received message for queue %s with body %s''])
   \<and> dispatch_trigger
       (E\<lparr>json_loads := (json_loads E)(''{\"id\":1}'' := Inr (PyDict [(py_str ''id'', PyInt 1)]))\<rparr>)
       (s\<lparr>deserialization_method := py_str ''json''\<rparr>) meth ''{\"id\":1}'' (py_str ''jobs'')
     = (Some (AttributeError ''decode''),
        [Log DEBUG ''Received message for queue %s with body %s''])"
  by (simp add: first_delivery_minimal dispatch_trigger_def deserialize_body_def)

subsection \<open>C3: failures of deserialization and decoding\<close>

text \<open>
  C3, as amended.  Under a configured mode, when the deserialization function raises an
  exception deriving from \<open>Exception\<close>, \<open>_deserialize_body\<close> returns the raw body
  and the failure is not propagated; when moreover the raw body is well-formed UTF-8 (and
  the sensor has its channel), the callback forwards the event with the decoded raw body,
  acknowledges, and leaves as \<open>dispatch\<close> does.
\<close>

theorem C3_deserialization_failure_falls_back:
  assumes "truthy (deserialization_method s)"
    and "deserialization_func E (deserialization_method s) = Inr f"
    and "f body = Inl e" and "is_Exception e"
  shows "deserialize_body E s body = Inr (PyBytes body) \<and>
     (\<forall>ch decoded meth queue. channel s = Some ch \<and> utf8_decode body = Some decoded \<longrightarrow>
        dispatch_trigger E s meth body queue =
          (dispatch E ''rabbitmq.new_message''
             (PyDict [(py_str ''queue'', queue), (py_str ''body'', PyStr decoded)]),
           [Log DEBUG ''Received message for queue %s with body %s'',
            Dispatch ''rabbitmq.new_message''
              (PyDict [(py_str ''queue'', queue), (py_str ''body'', PyStr decoded)]),
            BasicAck (delivery_tag meth)]))"
proof -
  have d: "deserialize_body E s body = Inr (PyBytes body)"
    using assms by (simp add: deserialize_body_def)
  then show ?thesis using dispatch_trigger_decoded [OF d] by blast
qed

text \<open>
  An instance: mode \<open>json\<close>, the malformed but well-formed-UTF-8 body
  \<open>b'{not json'\<close>, on which the deserialization function raises \<open>ValueError\<close>.
\<close>

theorem C3_deserialization_failure_falls_back_witness:
  "truthy (deserialization_method (connected (minimal_sensor [py_str ''jobs''] (py_str ''json''))))
   \<and> is_Exception (ValueError ''Expecting property name'')
   \<and> deserialize_body (scenario (Inl (ValueError ''Expecting property name'')) None None)
         (connected (minimal_sensor [py_str ''jobs''] (py_str ''json''))) ''{not json''
       = Inr (PyBytes ''{not json'')
   \<and> dispatch_trigger (scenario (Inl (ValueError ''Expecting property name'')) None None)
         (connected (minimal_sensor [py_str ''jobs''] (py_str ''json'')))
         \<lparr>delivery_tag = 3\<rparr> ''{not json'' (py_str ''jobs'')
       = (None,
          [Log DEBUG ''Received message for queue %s with body %s'',
           Dispatch ''rabbitmq.new_message''
             (PyDict [(py_str ''queue'', py_str ''jobs''), (py_str ''body'', py_str ''{not json'')]),
           BasicAck 3])"
proof -
  let ?E = "scenario (Inl (ValueError ''Expecting property name'')) None None"
  let ?s = "connected (minimal_sensor [py_str ''jobs''] (py_str ''json''))"
  have h1: "truthy (deserialization_method ?s)" by simp
  have h2: "deserialization_func ?E (deserialization_method ?s) = Inr (json_loads ?E)" by simp
  have h3: "json_loads ?E ''{not json'' = Inl (ValueError ''Expecting property name'')" by simp
  have h4: "is_Exception (ValueError ''Expecting property name'')" by simp
  have u: "utf8_decode ''{not json'' = Some (map of_char ''{not json'')"
    by (simp add: utf8_decode_def)
  from C3_deserialization_failure_falls_back [OF h1 h2 h3 h4] u h1 h4
  show ?thesis by (simp add: py_str_def)
qed

text \<open>
  C3 as stated fails when decoding fails.  Mode \<open>json\<close>, body \<open>b'\xff'\<close>:
  \<open>json.loads\<close> raises \<open>UnicodeDecodeError\<close>, which is swallowed; the raw body
  is then decoded at line 112, outside any handler, and that \<open>UnicodeDecodeError\<close>
  leaves the callback.  Nothing is forwarded.
\<close>

theorem C3_counterexample:
  "first_delivery (scenario (Inl UnicodeDecodeError) None None)
     (minimal_config (PyList [py_str ''jobs'']) (py_str ''json''))
     (py_str ''jobs'') \<lparr>delivery_tag = 1\<rparr> [CHR 0xFF]
   = Inr (Some UnicodeDecodeError,
          [Log DEBUG ''Received message for queue %s with body %s''])
   \<and> forwarded [Log DEBUG ''Received message for queue %s with body %s''] = []"
  by (simp add: first_delivery_minimal dispatch_trigger_def deserialize_body_def
      utf8_decode_def)


subsection \<open>C4: a dispatch that raises\<close>

text \<open>
  C4.  For every invocation of the callback (on a sensor that has its channel, as every
  sensor has once \<open>setup\<close> returned) in which the dispatch call is made and raises
  \<open>e\<close>: the acknowledgment for the delivery tag is issued, after the dispatch, as the
  last event, and \<open>e\<close> is the exception that leaves the callback.
\<close>

theorem C4_dispatch_raises:
  assumes "channel s = Some ch"
    and "dispatch_trigger E s meth body queue = (r, tr)"
    and "(t, p) \<in> set (forwarded tr)"
    and "dispatch E t p = Some e"
  shows "r = Some e \<and>
         tr = [Log DEBUG ''Received message for queue %s with body %s'',
               Dispatch t p, BasicAck (delivery_tag meth)]"
proof -
  from assms(2,3) have "(t, p) \<in> set (forwarded (snd (dispatch_trigger E s meth body queue)))"
    by simp
  then obtain bs decoded where d: "deserialize_body E s body = Inr (PyBytes bs)"
      "utf8_decode bs = Some decoded" "t = ''rabbitmq.new_message''"
      "p = PyDict [(py_str ''queue'', queue), (py_str ''body'', PyStr decoded)]"
    using forwarded_dispatch_trigger by blast
  from dispatch_trigger_decoded [OF d(1,2) assms(1), of meth queue] assms(2,4) d(3,4)
  show ?thesis by simp
qed

theorem C4_dispatch_raises_witness:
  "channel (connected (minimal_sensor [py_str ''orders''] PyNone))
     = Some (BlockingChannel (BlockingConnection
         (connection_params (minimal_sensor [py_str ''orders''] PyNone))))
   \<and> dispatch (scenario (Inr PyNone) (Some (LibraryError ''host'')) None)
        ''rabbitmq.new_message''
        (PyDict [(py_str ''queue'', py_str ''orders''), (py_str ''body'', py_str ''hello'')])
       = Some (LibraryError ''host'')
   \<and> dispatch_trigger (scenario (Inr PyNone) (Some (LibraryError ''host'')) None)
         (connected (minimal_sensor [py_str ''orders''] PyNone))
         \<lparr>delivery_tag = 7\<rparr> ''hello'' (py_str ''orders'')
       = (Some (LibraryError ''host''),
          [Log DEBUG ''Received message for queue %s with body %s'',
           Dispatch ''rabbitmq.new_message''
             (PyDict [(py_str ''queue'', py_str ''orders''), (py_str ''body'', py_str ''hello'')]),
           BasicAck 7])"
proof -
  let ?E = "scenario (Inr PyNone) (Some (LibraryError ''host'')) None"
  let ?s = "connected (minimal_sensor [py_str ''orders''] PyNone)"
  let ?p = "PyDict [(py_str ''queue'', py_str ''orders''), (py_str ''body'', py_str ''hello'')]"
  obtain r tr where rt:
    "dispatch_trigger ?E ?s \<lparr>delivery_tag = 7\<rparr> ''hello'' (py_str ''orders'') = (r, tr)"
    by (cases "dispatch_trigger ?E ?s \<lparr>delivery_tag = 7\<rparr> ''hello'' (py_str ''orders'')")
  have h1: "channel ?s = Some (BlockingChannel (BlockingConnection
         (connection_params (minimal_sensor [py_str ''orders''] PyNone))))"
    by simp
  have h3: "(''rabbitmq.new_message'', ?p) \<in> set (forwarded tr)"
    using rt by (auto simp: dispatch_trigger_def deserialize_body_def utf8_hello py_str_def)
  have h4: "dispatch ?E ''rabbitmq.new_message'' ?p = Some (LibraryError ''host'')" by simp
  from C4_dispatch_raises [OF h1 rt h3 h4] rt h1 h4 show ?thesis by simp
qed

subsection \<open>C5: each callback carries its own queue\<close>

text \<open>
  C5.  When \<open>setup\<close> returns, the registered consumers are, for each configured queue
  in order, the queue with a callback that carries that very queue; and for every
  configured queue, a delivery to it runs \<open>_dispatch_trigger\<close> with that queue, so that
  every event it forwards has that queue in its \<open>queue\<close> field.
\<close>

theorem C5_queue_identified:
  assumes "setup_sensor E s = (None, s', tr)"
  shows "consumers tr = map (\<lambda>q. (q, Callback q)) (queues s) \<and>
         (\<forall>q \<in> set (queues s).
            deliver E s' tr q meth body = dispatch_trigger E s' meth body q \<and>
            (\<forall>(t, p) \<in> set (forwarded (snd (deliver E s' tr q meth body))).
               py_getitem p ''queue'' = Inr q))"
proof -
  have c: "consumers tr = map (\<lambda>q. (q, Callback q)) (queues s)"
    using assms by (rule setup_sensor_returns)
  have d: "deliver E s' tr q meth body = dispatch_trigger E s' meth body q"
    if "q \<in> set (queues s)" for q
    using that by (simp add: deliver_def c map_of_callbacks callback_call_def)
  have f: "py_getitem p ''queue'' = Inr q"
    if "(t, p) \<in> set (forwarded (snd (dispatch_trigger E s' meth body q)))" for t p q
    using forwarded_dispatch_trigger [OF that] by auto
  show ?thesis using c d f by auto
qed

text \<open>
  The instance of the specification: queues \<open>["a", "b"]\<close>, a delivery to \<open>"b"\<close>
  forwards \<open>queue: "b"\<close>.
\<close>

theorem C5_queue_identified_witness:
  "setup_sensor (scenario (Inr PyNone) None None)
     (minimal_sensor [py_str ''a'', py_str ''b''] PyNone)
   = (None, connected (minimal_sensor [py_str ''a'', py_str ''b''] PyNone),
      map (\<lambda>item. Log DEBUG ''Connecting to RabbitMQ with %s = %r'')
        (connection_params (minimal_sensor [py_str ''a'', py_str ''b''] PyNone))
      @ [Log INFO ''Connecting to RabbitMQ on %s:%r'',
         Connect (connection_params (minimal_sensor [py_str ''a'', py_str ''b''] PyNone)),
         Log DEBUG ''Opening channel on RabbitMQ'',
         OpenChannel,
         Log DEBUG ''Setting QOS on RabbitMQ Channel'', BasicQos 1,
         Log INFO ''Connected to RabbitMQ on %s:%r'',
         Log INFO ''Consuming queue %s'', QueueDeclare (py_str ''a'') True,
         BasicConsume (py_str ''a'') (Callback (py_str ''a'')),
         Log INFO ''Consuming queue %s'', QueueDeclare (py_str ''b'') True,
         BasicConsume (py_str ''b'') (Callback (py_str ''b''))])
   \<and> forwarded (snd (deliver (scenario (Inr PyNone) None None)
        (connected (minimal_sensor [py_str ''a'', py_str ''b''] PyNone))
        (map (\<lambda>item. Log DEBUG ''Connecting to RabbitMQ with %s = %r'')
          (connection_params (minimal_sensor [py_str ''a'', py_str ''b''] PyNone))
        @ [Log INFO ''Connecting to RabbitMQ on %s:%r'',
         Connect (connection_params (minimal_sensor [py_str ''a'', py_str ''b''] PyNone)),
         Log DEBUG ''Opening channel on RabbitMQ'',
         OpenChannel,
         Log DEBUG ''Setting QOS on RabbitMQ Channel'', BasicQos 1,
         Log INFO ''Connected to RabbitMQ on %s:%r'',
         Log INFO ''Consuming queue %s'', QueueDeclare (py_str ''a'') True,
         BasicConsume (py_str ''a'') (Callback (py_str ''a'')),
         Log INFO ''Consuming queue %s'', QueueDeclare (py_str ''b'') True,
         BasicConsume (py_str ''b'') (Callback (py_str ''b''))])
        (py_str ''b'') \<lparr>delivery_tag = 2\<rparr> ''hello''))
     = [(''rabbitmq.new_message'',
         PyDict [(py_str ''queue'', py_str ''b''), (py_str ''body'', py_str ''hello'')])]"
proof -
  let ?E = "scenario (Inr PyNone) None None"
  let ?s = "minimal_sensor [py_str ''a'', py_str ''b''] PyNone"
  let ?tr = "map (\<lambda>item. Log DEBUG ''Connecting to RabbitMQ with %s = %r'') (connection_params ?s)
      @ [Log INFO ''Connecting to RabbitMQ on %s:%r'',
         Connect (connection_params ?s),
         Log DEBUG ''Opening channel on RabbitMQ'',
         OpenChannel,
         Log DEBUG ''Setting QOS on RabbitMQ Channel'', BasicQos 1,
         Log INFO ''Connected to RabbitMQ on %s:%r'',
         Log INFO ''Consuming queue %s'', QueueDeclare (py_str ''a'') True,
         BasicConsume (py_str ''a'') (Callback (py_str ''a'')),
         Log INFO ''Consuming queue %s'', QueueDeclare (py_str ''b'') True,
         BasicConsume (py_str ''b'') (Callback (py_str ''b''))]"
  have h: "setup_sensor ?E ?s = (None, connected ?s, ?tr)"
    by (simp add: setup_sensor_connected)
  have d: "forwarded (snd (dispatch_trigger ?E (connected ?s) \<lparr>delivery_tag = 2\<rparr> ''hello''
        (py_str ''b'')))
     = [(''rabbitmq.new_message'',
         PyDict [(py_str ''queue'', py_str ''b''), (py_str ''body'', py_str ''hello'')])]"
    by (simp add: dispatch_trigger_def deserialize_body_def utf8_hello py_str_def)
  from C5_queue_identified [OF h, of "\<lparr>delivery_tag = 2\<rparr>" "''hello''"] h d
  show ?thesis by simp
qed

subsection \<open>C6: a connect that fails\<close>

text \<open>
  C6.  When the transport's connect raises during \<open>setup\<close> of a sensor that has no
  connection yet (as after the constructor): the error is logged, connect is called once
  only, the sensor is left as it was (no connection), and execution goes on to the next
  statements; what leaves \<open>setup\<close> is not the connection error but the
  \<open>AttributeError\<close> of \<open>self.conn.channel()\<close> on \<open>None\<close>.
\<close>

theorem C6_connect_fails:
  assumes "connect E (connection_params s) = Some e" and "conn s = None"
  shows "setup_sensor E s =
    (Some (AttributeError ''channel''), s,
     map (\<lambda>item. Log DEBUG ''Connecting to RabbitMQ with %s = %r'') (connection_params s)
     @ [Log INFO ''Connecting to RabbitMQ on %s:%r'',
        Connect (connection_params s),
        Log ERROR ''Connecting to RabbitMQ failed: %r'',
        Log DEBUG ''Opening channel on RabbitMQ''])
    \<and> connects (snd (snd (setup_sensor E s))) = [connection_params s]"
  using assms by (simp add: setup_sensor_def Let_def connects_append connects_logs)

theorem C6_connect_fails_witness:
  "connect (scenario (Inr PyNone) None (Some (LibraryError ''AMQPConnectionError'')))
     (connection_params (minimal_sensor [py_str ''orders''] PyNone))
     = Some (LibraryError ''AMQPConnectionError'')
   \<and> conn (minimal_sensor [py_str ''orders''] PyNone) = None
   \<and> setup_sensor (scenario (Inr PyNone) None (Some (LibraryError ''AMQPConnectionError'')))
        (minimal_sensor [py_str ''orders''] PyNone)
     = (Some (AttributeError ''channel''), minimal_sensor [py_str ''orders''] PyNone,
        [Log DEBUG ''Connecting to RabbitMQ with %s = %r'',
         Log DEBUG ''Connecting to RabbitMQ with %s = %r'',
         Log DEBUG ''Connecting to RabbitMQ with %s = %r'',
         Log DEBUG ''Connecting to RabbitMQ with %s = %r'',
         Log DEBUG ''Connecting to RabbitMQ with %s = %r'',
         Log INFO ''Connecting to RabbitMQ on %s:%r'',
         Connect [(''host'', Param (py_str ''localhost'')), (''port'', Param (PyInt 5672)),
                  (''socket_timeout'', Param (PyInt 60)),
                  (''blocked_connection_timeout'', Param (PyInt 60)),
                  (''heartbeat'', Param (PyInt 600))],
         Log ERROR ''Connecting to RabbitMQ failed: %r'',
         Log DEBUG ''Opening channel on RabbitMQ''])"
proof -
  let ?E = "scenario (Inr PyNone) None (Some (LibraryError ''AMQPConnectionError''))"
  let ?s = "minimal_sensor [py_str ''orders''] PyNone"
  have h1: "connect ?E (connection_params ?s) = Some (LibraryError ''AMQPConnectionError'')"
    by simp
  have h2: "conn ?s = None" by simp
  have p: "connection_params ?s =
     [(''host'', Param (py_str ''localhost'')), (''port'', Param (PyInt 5672)),
      (''socket_timeout'', Param (PyInt 60)),
      (''blocked_connection_timeout'', Param (PyInt 60)),
      (''heartbeat'', Param (PyInt 600))]"
    by (simp add: connection_params_def minimal_sensor_def)
  from C6_connect_fails [OF h1 h2] h1 h2 show ?thesis by (simp add: p)
qed

subsection \<open>C7: an unsupported mode\<close>

text \<open>
  C7.  For every configuration whose \<open>deserialization_method\<close> entry is a non-empty
  string other than \<open>json\<close> and \<open>pickle\<close>, the constructor raises: no sensor
  object exists, so neither \<open>setup\<close> nor any callback runs.  When the required
  entries \<open>host\<close> and \<open>queues\<close> are there (they are read first, and a missing one
  raises \<open>KeyError\<close>), the exception is the \<open>ValueError\<close> of line 49.  And a
  sensor that the constructor did return never fails on the table lookup of
  \<open>_deserialize_body\<close>: a mode that is set is in the table.
\<close>

theorem C7_invalid_mode_rejected:
  assumes "sensor_config_item cfg ''rabbitmq_queue_sensor'' = Inr qsc"
    and "py_getitem qsc ''deserialization_method'' = Inr (PyStr m)"
    and "m \<noteq> []" and "PyStr m \<noteq> py_str ''json''" and "PyStr m \<noteq> py_str ''pickle''"
  shows "(\<exists>e. init cfg = Inl e) \<and>
         (\<forall>h qs. sensor_config_item cfg ''host'' = Inr h \<and> py_getitem qsc ''queues'' = Inr qs
            \<longrightarrow> init cfg = Inl (ValueError ''Invalid deserialization method specified: %s'')) \<and>
         (\<forall>cfg' s E. init cfg' = Inr s \<and> truthy (deserialization_method s)
            \<longrightarrow> (\<exists>f. deserialization_func E (deserialization_method s) = Inr f))"
proof (intro conjI allI impI)
  from assms(1) obtain kvs where sc: "py_getitem cfg ''sensor_config'' = Inr (PyDict kvs)"
    and q: "py_getitem (PyDict kvs) ''rabbitmq_queue_sensor'' = Inr qsc"
    by (rule sensor_config_item_dict)
  have n: "not_in_supported_methods (PyStr m) = Inr True"
    using assms(4,5) by (simp add: not_in_supported_methods_def)
  have rest: "init cfg = Inl (ValueError ''Invalid deserialization method specified: %s'')"
    if "sensor_config_item cfg ''host'' = Inr h" "py_getitem qsc ''queues'' = Inr qs" for h qs
    using that assms(1-3) sc n
    by (simp add: init_def sensor_config_get_def)
  show "\<exists>e. init cfg = Inl e"
  proof (cases "sensor_config_item cfg ''host''")
    case (Inl e)
    then show ?thesis by (simp add: init_def)
  next
    case h: (Inr h)
    show ?thesis
    proof (cases "py_getitem qsc ''queues''")
      case (Inl e)
      with h assms(1) sc show ?thesis by (simp add: init_def sensor_config_get_def)
    next
      case (Inr qs)
      with h rest show ?thesis by blast
    qed
  qed
  fix h qs
  assume "sensor_config_item cfg ''host'' = Inr h \<and> py_getitem qsc ''queues'' = Inr qs"
  then show "init cfg = Inl (ValueError ''Invalid deserialization method specified: %s'')"
    using rest by blast
next
  fix cfg' s E
  assume a: "init cfg' = Inr s \<and> truthy (deserialization_method s)"
  then have "hashable (deserialization_method s) \<and>
      (deserialization_method s = py_str ''json'' \<or> deserialization_method s = py_str ''pickle'')"
    by (auto simp: init_def bindE_eq_Inr not_in_supported_methods_def
        split: if_splits)
  then show "\<exists>f. deserialization_func E (deserialization_method s) = Inr f"
    by (auto simp: deserialization_func_def DESERIALIZATION_FUNCTIONS_def)
qed

text \<open>An instance: the mode \<open>yaml\<close> in the minimal configuration.\<close>

theorem C7_invalid_mode_rejected_witness:
  "sensor_config_item (minimal_config (py_str ''orders'') (py_str ''yaml''))
     ''rabbitmq_queue_sensor''
     = Inr (PyDict [(py_str ''queues'', py_str ''orders''),
                    (py_str ''deserialization_method'', py_str ''yaml'')])
   \<and> py_getitem (PyDict [(py_str ''queues'', py_str ''orders''),
                    (py_str ''deserialization_method'', py_str ''yaml'')])
       ''deserialization_method'' = Inr (py_str ''yaml'')
   \<and> py_str ''yaml'' \<noteq> py_str ''json'' \<and> py_str ''yaml'' \<noteq> py_str ''pickle''
   \<and> init (minimal_config (py_str ''orders'') (py_str ''yaml''))
       = Inl (ValueError ''Invalid deserialization method specified: %s'')"
proof -
  let ?cfg = "minimal_config (py_str ''orders'') (py_str ''yaml'')"
  let ?qsc = "PyDict [(py_str ''queues'', py_str ''orders''),
                    (py_str ''deserialization_method'', py_str ''yaml'')]"
  have h1: "sensor_config_item ?cfg ''rabbitmq_queue_sensor'' = Inr ?qsc"
    by (rule minimal_config_items)
  have h2: "py_getitem ?qsc ''deserialization_method'' = Inr (PyStr (map of_char ''yaml''))"
    by (simp add: py_str_def)
  have h3: "map of_char ''yaml'' \<noteq> ([] :: nat list)" by simp
  have h4: "PyStr (map of_char ''yaml'') \<noteq> py_str ''json''"
    and h5: "PyStr (map of_char ''yaml'') \<noteq> py_str ''pickle''"
    by (simp_all add: py_str_def)
  have h6: "sensor_config_item ?cfg ''host'' = Inr (py_str ''localhost'')"
    and h7: "py_getitem ?qsc ''queues'' = Inr (py_str ''orders'')"
    by (rule minimal_config_items)+
  from C7_invalid_mode_rejected [OF h1 h2 h3 h4 h5] h6 h7
  have "init ?cfg = Inl (ValueError ''Invalid deserialization method specified: %s'')"
    by blast
  with h1 h2 h4 h5 show ?thesis by (simp add: py_str_def)
qed

subsection \<open>C8: no mode configured\<close>

text \<open>
  C8, as amended.  The constructor reads the \<open>deserialization_method\<close> entry with a
  subscript, so the entry has to be there; its value may be \<open>None\<close> or empty.  For
  every configuration with the required entries whose \<open>deserialization_method\<close> is
  such a value, the constructor returns a sensor; on that sensor \<open>_deserialize_body\<close>
  is the identity, and once the sensor has its channel every delivered body of
  well-formed UTF-8 is forwarded with the decoded raw bytes as its body, and
  acknowledged.
\<close>

theorem C8_null_mode_identity:
  assumes "sensor_config_item cfg ''host'' = Inr h"
    and "sensor_config_item cfg ''rabbitmq_queue_sensor'' = Inr qsc"
    and "py_getitem qsc ''queues'' = Inr qs"
    and "py_getitem qsc ''deserialization_method'' = Inr dm"
    and "\<not> truthy dm"
  shows "\<exists>s. init cfg = Inr s \<and> deserialization_method s = dm \<and>
           (\<forall>E body. deserialize_body E s body = Inr (PyBytes body)) \<and>
           (\<forall>E c ch meth body queue decoded. utf8_decode body = Some decoded \<longrightarrow>
              dispatch_trigger E (s\<lparr>conn := c, channel := Some ch\<rparr>) meth body queue =
                (dispatch E ''rabbitmq.new_message''
                   (PyDict [(py_str ''queue'', queue), (py_str ''body'', PyStr decoded)]),
                 [Log DEBUG ''Received message for queue %s with body %s'',
                  Dispatch ''rabbitmq.new_message''
                    (PyDict [(py_str ''queue'', queue), (py_str ''body'', PyStr decoded)]),
                  BasicAck (delivery_tag meth)]))"
proof -
  from assms(1) obtain kvs where sc: "py_getitem cfg ''sensor_config'' = Inr (PyDict kvs)"
    by (rule sensor_config_item_dict)
  from assms sc obtain s where s: "init cfg = Inr s" "deserialization_method s = dm"
    by (simp add: init_def sensor_config_get_def)
  have d: "deserialize_body E s' body = Inr (PyBytes body)"
    if "deserialization_method s' = dm" for E s' body
    using that assms(5) by (simp add: deserialize_body_def)
  have "dispatch_trigger E (s\<lparr>conn := c, channel := Some ch\<rparr>) meth body queue =
      (dispatch E ''rabbitmq.new_message''
         (PyDict [(py_str ''queue'', queue), (py_str ''body'', PyStr decoded)]),
       [Log DEBUG ''Received message for queue %s with body %s'',
        Dispatch ''rabbitmq.new_message''
          (PyDict [(py_str ''queue'', queue), (py_str ''body'', PyStr decoded)]),
        BasicAck (delivery_tag meth)])"
    if "utf8_decode body = Some decoded" for E c ch meth body queue decoded
    by (rule dispatch_trigger_decoded [OF d that]) (simp_all add: s)
  with s d show ?thesis by blast
qed

text \<open>An instance: the minimal configuration with the value \<open>None\<close>, body \<open>b'hello'\<close>.\<close>

theorem C8_null_mode_identity_witness:
  "sensor_config_item (minimal_config (PyList [py_str ''orders'']) PyNone) ''host''
     = Inr (py_str ''localhost'')
   \<and> sensor_config_item (minimal_config (PyList [py_str ''orders'']) PyNone)
       ''rabbitmq_queue_sensor''
     = Inr (PyDict [(py_str ''queues'', PyList [py_str ''orders'']),
                    (py_str ''deserialization_method'', PyNone)])
   \<and> \<not> truthy PyNone
   \<and> init (minimal_config (PyList [py_str ''orders'']) PyNone)
     = Inr (minimal_sensor [py_str ''orders''] PyNone)
   \<and> deserialize_body (scenario (Inr PyNone) None None)
        (minimal_sensor [py_str ''orders''] PyNone) ''hello''
     = Inr (PyBytes ''hello'')
   \<and> dispatch_trigger (scenario (Inr PyNone) None None)
        (connected (minimal_sensor [py_str ''orders''] PyNone))
        \<lparr>delivery_tag = 1\<rparr> ''hello'' (py_str ''orders'')
     = (None,
        [Log DEBUG ''Received message for queue %s with body %s'',
         Dispatch ''rabbitmq.new_message''
           (PyDict [(py_str ''queue'', py_str ''orders''), (py_str ''body'', py_str ''hello'')]),
         BasicAck 1])"
proof -
  let ?cfg = "minimal_config (PyList [py_str ''orders'']) PyNone"
  let ?qsc = "PyDict [(py_str ''queues'', PyList [py_str ''orders'']),
                    (py_str ''deserialization_method'', PyNone)]"
  let ?E = "scenario (Inr PyNone) None None"
  let ?s = "minimal_sensor [py_str ''orders''] PyNone"
  have h1: "sensor_config_item ?cfg ''host'' = Inr (py_str ''localhost'')"
    and h2: "sensor_config_item ?cfg ''rabbitmq_queue_sensor'' = Inr ?qsc"
    and h3: "py_getitem ?qsc ''queues'' = Inr (PyList [py_str ''orders''])"
    and h4: "py_getitem ?qsc ''deserialization_method'' = Inr PyNone"
    by (rule minimal_config_items)+
  have h5: "\<not> truthy PyNone" by simp
  have i: "init ?cfg = Inr ?s"
    using init_minimal [of PyNone "PyList [py_str ''orders'']"] by simp
  from C8_null_mode_identity [OF h1 h2 h3 h4 h5] i
  have a: "deserialize_body ?E ?s ''hello'' = Inr (PyBytes ''hello'')"
    and b: "utf8_decode ''hello'' = Some decoded \<Longrightarrow>
      dispatch_trigger ?E (?s\<lparr>conn := c, channel := Some ch\<rparr>) meth ''hello'' queue =
        (dispatch ?E ''rabbitmq.new_message''
           (PyDict [(py_str ''queue'', queue), (py_str ''body'', PyStr decoded)]),
         [Log DEBUG ''Received message for queue %s with body %s'',
          Dispatch ''rabbitmq.new_message''
            (PyDict [(py_str ''queue'', queue), (py_str ''body'', PyStr decoded)]),
          BasicAck (delivery_tag meth)])" for c ch meth queue decoded
    by auto
  from b [OF utf8_hello, where c = "Some (BlockingConnection (connection_params ?s))"
      and ch = "BlockingChannel (BlockingConnection (connection_params ?s))"
      and meth = "\<lparr>delivery_tag = 1\<rparr>" and queue = "py_str ''orders''"]
  have "dispatch_trigger ?E (connected ?s) \<lparr>delivery_tag = 1\<rparr> ''hello'' (py_str ''orders'')
     = (None,
        [Log DEBUG ''Received message for queue %s with body %s'',
         Dispatch ''rabbitmq.new_message''
           (PyDict [(py_str ''queue'', py_str ''orders''), (py_str ''body'', py_str ''hello'')]),
         BasicAck 1])"
    by (simp add: connected_def py_str_def)
  with a i h1 h2 h5 show ?thesis by simp
qed

text \<open>
  C8 as stated fails: with the entry absent the subscript of line 45 raises
  \<open>KeyError\<close> and no sensor is constructed.
\<close>

theorem C8_counterexample:
  "init (PyDict [(py_str ''sensor_config'',
           PyDict [(py_str ''host'', py_str ''localhost''),
                   (py_str ''rabbitmq_queue_sensor'',
                    PyDict [(py_str ''queues'', PyList [py_str ''orders''])])])])
   = Inl (KeyError (py_str ''deserialization_method''))"
  by (simp add: init_def sensor_config_item_def sensor_config_get_def)

subsection \<open>C9: the scenario of queue orders\<close>

text \<open>
  C9.  Queue \<open>orders\<close>, no mode, body \<open>b"hello"\<close>.  In every environment whose
  connect succeeds, the whole run (constructor on the minimal configuration,
  \<open>setup\<close>, delivery to \<open>orders\<close>) forwards exactly the event
  \<open>{"queue": "orders", "body": "hello"}\<close> under the trigger
  \<open>rabbitmq.new_message\<close>, then acknowledges; and on any sensor without a mode the
  callback forwards exactly that event.
\<close>

theorem C9_orders_hello:
  "first_delivery (E\<lparr>connect := \<lambda>_. None\<rparr>)
     (minimal_config (PyList [py_str ''orders'']) PyNone) (py_str ''orders'') meth ''hello''
   = Inr (dispatch E ''rabbitmq.new_message''
            (PyDict [(py_str ''queue'', py_str ''orders''), (py_str ''body'', py_str ''hello'')]),
          [Log DEBUG ''Received message for queue %s with body %s'',
           Dispatch ''rabbitmq.new_message''
            (PyDict [(py_str ''queue'', py_str ''orders''), (py_str ''body'', py_str ''hello'')]),
           BasicAck (delivery_tag meth)])
   \<and> forwarded (snd (dispatch_trigger E (s\<lparr>deserialization_method := PyNone\<rparr>) meth ''hello''
          (py_str ''orders'')))
     = [(''rabbitmq.new_message'',
         PyDict [(py_str ''queue'', py_str ''orders''), (py_str ''body'', py_str ''hello'')])]"
proof
  show "forwarded (snd (dispatch_trigger E (s\<lparr>deserialization_method := PyNone\<rparr>) meth ''hello''
          (py_str ''orders'')))
     = [(''rabbitmq.new_message'',
         PyDict [(py_str ''queue'', py_str ''orders''), (py_str ''body'', py_str ''hello'')])]"
    by (simp add: dispatch_trigger_def deserialize_body_def utf8_hello Let_def py_str_def
        split: option.splits)
  let ?E = "E\<lparr>connect := \<lambda>_. None\<rparr>"
  let ?s = "connected (minimal_sensor [py_str ''orders''] PyNone)"
  have "deserialize_body ?E ?s ''hello'' = Inr (PyBytes ''hello'')"
    by (simp add: deserialize_body_def)
  from dispatch_trigger_decoded [OF this utf8_hello, of _ meth "py_str ''orders''"]
  have "dispatch_trigger ?E ?s meth ''hello'' (py_str ''orders'')
     = (dispatch E ''rabbitmq.new_message''
            (PyDict [(py_str ''queue'', py_str ''orders''), (py_str ''body'', py_str ''hello'')]),
          [Log DEBUG ''Received message for queue %s with body %s'',
           Dispatch ''rabbitmq.new_message''
            (PyDict [(py_str ''queue'', py_str ''orders''), (py_str ''body'', py_str ''hello'')]),
           BasicAck (delivery_tag meth)])"
    by (simp add: py_str_def)
  then show "first_delivery ?E
     (minimal_config (PyList [py_str ''orders'']) PyNone) (py_str ''orders'') meth ''hello''
   = Inr (dispatch E ''rabbitmq.new_message''
            (PyDict [(py_str ''queue'', py_str ''orders''), (py_str ''body'', py_str ''hello'')]),
          [Log DEBUG ''Received message for queue %s with body %s'',
           Dispatch ''rabbitmq.new_message''
            (PyDict [(py_str ''queue'', py_str ''orders''), (py_str ''body'', py_str ''hello'')]),
           BasicAck (delivery_tag meth)])"
    by (simp add: first_delivery_minimal)
qed

subsection \<open>C10: a single queue name\<close>

text \<open>
  C10.  For every configuration, whatever its other entries, giving \<open>queues\<close> as the
  string \<open>name\<close> or as the list \<open>[name]\<close> makes the constructor return the same
  result (the same sensor, or the same exception), hence the same subscriptions and the
  same behaviour on a delivery; and a sensor constructed from the string has the
  one-element list as its queues.
\<close>

theorem C10_single_queue_normalized:
  "init (config_with outer sc qsc (PyStr name)) = init (config_with outer sc qsc (PyList [PyStr name]))
   \<and> first_delivery E (config_with outer sc qsc (PyStr name)) queue meth body
     = first_delivery E (config_with outer sc qsc (PyList [PyStr name])) queue meth body
   \<and> (\<forall>s. init (config_with outer sc qsc (PyStr name)) = Inr s \<longrightarrow> queues s = [PyStr name])"
proof -
  have i: "init (config_with outer sc qsc (PyStr name))
      = init (config_with outer sc qsc (PyList [PyStr name]))"
    by (simp add: init_def config_with_def sensor_config_item_def sensor_config_get_def
        cong: if_cong)
  have q: "queues s = [PyStr name]" if "init (config_with outer sc qsc (PyStr name)) = Inr s" for s
    using that
    by (auto simp: init_def config_with_def sensor_config_item_def sensor_config_get_def
        bindE_eq_Inr split: if_splits)
  from i q show ?thesis by (simp add: first_delivery_def)
qed

text \<open>An instance: the queue \<open>orders\<close> in a configuration that the constructor accepts.\<close>

theorem C10_single_queue_normalized_witness:
  "init (config_with [] [(py_str ''host'', py_str ''localhost'')]
           [(py_str ''deserialization_method'', PyNone)] (py_str ''orders''))
     = Inr (minimal_sensor [py_str ''orders''] PyNone)
   \<and> init (config_with [] [(py_str ''host'', py_str ''localhost'')]
           [(py_str ''deserialization_method'', PyNone)] (PyList [py_str ''orders'']))
     = Inr (minimal_sensor [py_str ''orders''] PyNone)
   \<and> queues (minimal_sensor [py_str ''orders''] PyNone) = [py_str ''orders'']"
proof -
  have i: "init (config_with [] [(py_str ''host'', py_str ''localhost'')]
           [(py_str ''deserialization_method'', PyNone)] (PyStr (map of_char ''orders'')))
     = Inr (minimal_sensor [py_str ''orders''] PyNone)"
    using init_minimal [of PyNone "py_str ''orders''"]
    by (simp add: minimal_config_def py_str_def)
  from C10_single_queue_normalized [of "[]" "[(py_str ''host'', py_str ''localhost'')]"
      "[(py_str ''deserialization_method'', PyNone)]" "map of_char ''orders''"] i
  show ?thesis by (simp add: py_str_def)
qed

end
